theory Spec2Isabelle
  imports Complex_Main "HOL-Library.Char_ord" "HOL-Library.List_Lexorder"
    "HOL-Library.Multiset"
begin

section \<open>Python strings and numbers\<close>

text \<open>
  A Python \<open>str\<close> is a sequence of Unicode code points, and \<open>len\<close>, slicing and
  comparison work on code points.  A string is therefore a list of code points; an ASCII
  literal of the source is written \<open>py ''...''\<close> and any other character by its number.
\<close>

type_synonym pystr = "nat list"

definition py :: "string \<Rightarrow> pystr" where
  "py s = map of_char s"

text \<open>
  \<open>str.lower\<close>: the ASCII capitals move to their small letters.  Two code points beyond
  ASCII have a lower-case form that contains an ASCII letter (U+0130 and the Kelvin sign
  U+212A).  Every other code point is left as it is: Python sends those that have a
  lower-case form to code points beyond ASCII, which no keyword of this program contains.
\<close>

definition lower_cp :: "nat \<Rightarrow> pystr" where
  "lower_cp c =
     (if 65 \<le> c \<and> c \<le> 90 then [c + 32]
      else if c = 304 then [105, 775]
      else if c = 8490 then [107]
      else [c])"

definition lower :: "pystr \<Rightarrow> pystr" where
  "lower s = concat (map lower_cp s)"

text \<open>\<open>str.isspace\<close> on one code point, which is what \<open>str.strip()\<close> removes.\<close>

definition is_space :: "nat \<Rightarrow> bool" where
  "is_space c \<longleftrightarrow>
     (9 \<le> c \<and> c \<le> 13) \<or> (28 \<le> c \<and> c \<le> 32) \<or> c = 133 \<or> c = 160 \<or> c = 5760
     \<or> (8192 \<le> c \<and> c \<le> 8202) \<or> c = 8232 \<or> c = 8233 \<or> c = 8239 \<or> c = 8287
     \<or> c = 12288"

definition strip :: "pystr \<Rightarrow> pystr" where
  "strip s = rev (dropWhile is_space (rev (dropWhile is_space s)))"

text \<open>\<open>sub in s\<close> on strings: \<open>sub\<close> occurs in \<open>s\<close> as a contiguous run.\<close>

fun startswith :: "'a list \<Rightarrow> 'a list \<Rightarrow> bool" where
  "startswith s [] = True"
| "startswith [] (p # ps) = False"
| "startswith (c # cs) (p # ps) = (c = p \<and> startswith cs ps)"

fun contains :: "'a list \<Rightarrow> 'a list \<Rightarrow> bool" where
  "contains [] sub = startswith [] sub"
| "contains (c # cs) sub = (startswith (c # cs) sub \<or> contains cs sub)"

text \<open>\<open>any(word in text for word in words)\<close>.\<close>

definition any_in :: "pystr list \<Rightarrow> pystr \<Rightarrow> bool" where
  "any_in words text = list_ex (\<lambda>word. contains text word) words"

text \<open>
  \<open>s.split(sep)\<close> for a non-empty separator: the pieces between the occurrences of
  \<open>sep\<close>, found from left to right without overlap; \<open>cur\<close> holds the piece being read,
  reversed.
\<close>

function split_on :: "'a list \<Rightarrow> 'a list \<Rightarrow> 'a list \<Rightarrow> 'a list list" where
  "split_on sep cur [] = [rev cur]"
| "split_on sep cur (c # cs) =
     (if sep \<noteq> [] \<and> startswith (c # cs) sep
      then rev cur # split_on sep [] (drop (length sep) (c # cs))
      else split_on sep (c # cur) cs)"
  by pat_completeness auto
termination
  by (relation "measure (\<lambda>(sep, cur, s). length s)") auto

definition split :: "'a list \<Rightarrow> 'a list \<Rightarrow> 'a list list" where
  "split s sep = split_on sep [] s"


text \<open>
  A Python \<open>float\<close> is modelled by the rational number its decimal literal denotes, and
  the comparisons of the source by the order of the rationals.  \<open>round(x, n)\<close> rounds to
  \<open>n\<close> decimals, a tie going to the even neighbour.
\<close>

definition round_half_even :: "rat \<Rightarrow> int" where
  "round_half_even x =
     (let f = \<lfloor>x\<rfloor>; d = x - of_int f
      in if d < 1 / 2 then f
         else if 1 / 2 < d then f + 1
         else if even f then f else f + 1)"

definition py_round :: "rat \<Rightarrow> nat \<Rightarrow> rat" where
  "py_round x n = of_int (round_half_even (x * 10 ^ n)) / 10 ^ n"

datatype py_error = Exception | IndexError

section \<open>Sentiment fusion (sentiment\_fusion.py)\<close>

text \<open>
  A scorer's result is a dictionary read with \<open>.get(key, default)\<close>, so either key may be
  absent.
\<close>

record sentiment =
  s_label :: "pystr option"
  s_confidence :: "rat option"

definition get_or :: "'a option \<Rightarrow> 'a \<Rightarrow> 'a" where
  "get_or v d = (case v of None \<Rightarrow> d | Some x \<Rightarrow> x)"

definition combine_sentiments :: "sentiment \<Rightarrow> sentiment \<Rightarrow> pystr" where
  "combine_sentiments base nuanced =
     (let base_label = get_or (s_label base) (py ''neutral'');
          nuanced_label = get_or (s_label nuanced) (py ''neutral'');
          base_conf = get_or (s_confidence base) (1 / 2);
          nuanced_conf = get_or (s_confidence nuanced) (1 / 2)
      in if base_conf > 8 / 10 then base_label
         else if nuanced_conf > 8 / 10 then nuanced_label
         else if base_label = nuanced_label then base_label
         else (if base_conf \<ge> nuanced_conf then base_label else nuanced_label))"

section \<open>Emotion classifier (emotion.py)\<close>

text \<open>
  The transformers pipeline is outside the repository: it is a parameter, a function from
  the text to an error or to a list of score lists.  \<open>detect_emotion\<close> returns its
  result together with the number of times it has called the pipeline.
\<close>

record emotion_result =
  er_label :: pystr
  er_confidence :: rat
  all_scores :: "(pystr \<times> rat) list"

type_synonym pipeline = "pystr \<Rightarrow> py_error + (pystr \<times> rat) list list"

definition default_result :: emotion_result where
  "default_result =
     \<lparr>er_label = py ''neutral'', er_confidence = 1 / 2, all_scores = [(py ''neutral'', 1 / 2)]\<rparr>"

text \<open>\<open>sorted(xs, key=score, reverse=True)\<close>: descending, equal keys in their given order.\<close>

definition sorted_desc :: "('a \<Rightarrow> 'k::linorder) \<Rightarrow> 'a list \<Rightarrow> 'a list" where
  "sorted_desc key xs = rev (sort_key key (rev xs))"

definition detect_emotion :: "pipeline \<Rightarrow> pystr \<Rightarrow> int \<Rightarrow> emotion_result \<times> nat" where
  "detect_emotion pipe text min_length =
     (if text = [] \<or> int (length (strip text)) < min_length then
        (\<lparr>er_label = py ''neutral'', er_confidence = 1 / 2,
          all_scores = [(py ''neutral'', 1 / 2)]\<rparr>, 0)
      else
        let text' = (if length text > 512 then take 512 text else text)
        in case pipe text' of
             Inl e \<Rightarrow> (default_result, 1)
           | Inr results \<Rightarrow>
               (case results of
                  [] \<Rightarrow> (default_result, 1)
                | scores # _ \<Rightarrow>
                    (case sorted_desc snd scores of
                       [] \<Rightarrow> (default_result, 1)
                     | top_result # rest \<Rightarrow>
                         (\<lparr>er_label = fst top_result,
                           er_confidence = py_round (snd top_result) 3,
                           all_scores = map (\<lambda>r. (fst r, py_round (snd r) 3))
                                            (top_result # rest)\<rparr>, 1))))"

definition detect_emotion_default :: "pipeline \<Rightarrow> pystr \<Rightarrow> emotion_result \<times> nat" where
  "detect_emotion_default pipe text = detect_emotion pipe text 5"

section \<open>Generation client (llm\_response.py)\<close>

text \<open>
  The remote model is outside the repository.  One call of \<open>generate_content\<close> either
  raises or returns a response whose text may be empty; what it does may differ from one
  attempt to the next, so the model is a function of the prompt, the temperature and the
  number of the attempt.
\<close>

datatype outcome = Raised | Replied pystr

type_synonym gemini_model = "pystr \<Rightarrow> rat \<Rightarrow> nat \<Rightarrow> outcome"

record gemini_client =
  model :: "gemini_model option"
  last_request_time :: rat
  min_request_interval :: rat

text \<open>
  What a call does besides returning: the calls of the remote model, the log entries
  (with the attempt number they print) and the sleeps (in seconds), in order.
\<close>

datatype event =
    Generate_content pystr rat nat
  | Log_warning nat
  | Log_error nat
  | Sleep rat

definition fallback_sadness :: pystr where
  "fallback_sadness =
     py (''I understand you're going through a tough time. It's okay to feel '' @
         ''sad sometimes - these feelings are valid and temporary. Would you '' @
         ''like to talk more about what's bothering you? '') @
     [240, 376, 8217, 8482]"

definition fallback_anger :: pystr where
  "fallback_anger =
     py (''It sounds like you're feeling frustrated right now. That's completely '' @
         ''understandable. Take a deep breath with me. Sometimes talking through '' @
         ''what's making us angry can help. I'm here to listen. '') @
     [240, 376, 171, 8218]"

definition fallback_fear :: pystr where
  "fallback_fear =
     py (''I can sense you're feeling anxious. Anxiety can be overwhelming, '' @
         ''but you're not alone in this. Try taking some slow, deep breaths. '' @
         ''What's one thing that usually helps you feel calmer? '') @
     [240, 376, 338, 184]"

definition fallback_joy :: pystr where
  "fallback_joy =
     py (''I'm so glad to hear you're feeling positive! It's wonderful when '' @
         ''we experience joy. What's been the highlight of your day? I'd love '' @
         ''to celebrate this moment with you! '') @
     [226, 339, 168]"

definition fallback_fatigue :: pystr where
  "fallback_fatigue =
     py (''You sound really tired right now. It's important to acknowledge '' @
         ''when we need rest. Have you been taking care of yourself lately? '' @
         ''Sometimes we need to slow down and recharge. '') @
     [240, 376, 338, 8482]"

definition fallback_generic :: pystr where
  "fallback_generic =
     py (''Thank you for sharing with me. I'm here to listen and support you '' @
         ''through whatever you're experiencing. Your feelings matter, and '' @
         ''you're not alone. How can I help you today? '') @
     [240, 376, 164, 8212]"

text \<open>\<open>GeminiClient._fallback_response\<close>.\<close>

definition gemini_fallback_response :: "pystr \<Rightarrow> pystr" where
  "gemini_fallback_response prompt =
     (let text_lower = lower prompt
      in if any_in [py ''sad'', py ''depressed'', py ''down'', py ''upset''] text_lower
           then fallback_sadness
         else if any_in [py ''angry'', py ''frustrated'', py ''mad'', py ''annoyed''] text_lower
           then fallback_anger
         else if any_in [py ''anxious'', py ''worried'', py ''nervous'', py ''stressed''] text_lower
           then fallback_fear
         else if any_in [py ''happy'', py ''excited'', py ''joyful'', py ''great'',
                         py ''wonderful''] text_lower
           then fallback_joy
         else if any_in [py ''tired'', py ''exhausted'', py ''drained'', py ''overwhelmed'']
                   text_lower
           then fallback_fatigue
         else fallback_generic)"

text \<open>
  \<open>GeminiClient._enforce_rate_limit\<close>.  \<open>now\<close> is what \<open>time.time()\<close> reads on
  entry; a sleep is taken to last exactly as long as asked, so the second reading is
  \<open>now\<close> plus the time slept.
\<close>

definition enforce_rate_limit :: "gemini_client \<Rightarrow> rat \<Rightarrow> event list \<times> gemini_client" where
  "enforce_rate_limit c now =
     (let time_since_last = now - last_request_time c
      in if time_since_last < min_request_interval c
         then (let sleep_time = min_request_interval c - time_since_last
               in ([Sleep sleep_time], c\<lparr>last_request_time := now + sleep_time\<rparr>))
         else ([], c\<lparr>last_request_time := now\<rparr>))"

text \<open>
  The loop \<open>for attempt in range(max_retries)\<close> of \<open>generate_response\<close>, over the
  attempt numbers still to run.  \<open>None\<close> means the loop ran to its end without a
  \<open>return\<close>.
\<close>

fun attempt_loop ::
  "gemini_model \<Rightarrow> pystr \<Rightarrow> int \<Rightarrow> rat \<Rightarrow> nat list \<Rightarrow> event list \<times> pystr option" where
  "attempt_loop m prompt max_retries temperature [] = ([], None)"
| "attempt_loop m prompt max_retries temperature (attempt # rest) =
     (case m prompt temperature attempt of
        Replied text \<Rightarrow>
          if text \<noteq> [] then ([Generate_content prompt temperature attempt], Some (strip text))
          else (let (evs, r) = attempt_loop m prompt max_retries temperature rest
                in (Generate_content prompt temperature attempt # Log_warning (attempt + 1) # evs, r))
      | Raised \<Rightarrow>
          (let backoff = (if int attempt < max_retries - 1 then [Sleep (2 ^ attempt)] else []);
               (evs, r) = attempt_loop m prompt max_retries temperature rest
           in (Generate_content prompt temperature attempt # Log_error (attempt + 1) # backoff @ evs,
               r)))"

text \<open>
  \<open>GeminiClient.generate_response\<close>: the text returned, the events and the client
  afterwards.
\<close>

definition gemini_generate_response ::
  "gemini_client \<Rightarrow> rat \<Rightarrow> pystr \<Rightarrow> int \<Rightarrow> rat \<Rightarrow> pystr \<times> event list \<times> gemini_client" where
  "gemini_generate_response c now prompt max_retries temperature =
     (case model c of
        None \<Rightarrow> (gemini_fallback_response prompt, [], c)
      | Some m \<Rightarrow>
          (let (gate, c') = enforce_rate_limit c now;
               (evs, r) = attempt_loop m prompt max_retries temperature [0..<nat max_retries]
           in case r of
                Some text \<Rightarrow> (text, gate @ evs, c')
              | None \<Rightarrow> (gemini_fallback_response prompt, gate @ evs, c')))"


record health =
  available :: bool
  reason :: pystr

text \<open>\<open>check_api_health\<close>; the probe runs with the default temperature 0.7.\<close>

definition check_api_health :: "gemini_client \<Rightarrow> rat \<Rightarrow> health \<times> event list \<times> gemini_client" where
  "check_api_health client now =
     (if model client = None
      then (\<lparr>available = False, reason = py ''Client not initialized''\<rparr>, [], client)
      else
        (let (test_response, evs, client') =
               gemini_generate_response client now (py ''Hello'') 1 (7 / 10);
             is_working = (length test_response > 0
                           \<and> \<not> contains (lower test_response) (py ''fallback''))
         in (\<lparr>available = is_working,
              reason = (if is_working then py ''API working''
                        else py ''API not responding properly'')\<rparr>, evs, client')))"

section \<open>Response synthesizer (response\_generator.py)\<close>
















function str_of_nat :: "nat \<Rightarrow> pystr" where
  "str_of_nat n = (if n < 10 then [48 + n] else str_of_nat (n div 10) @ [48 + n mod 10])"
  by pat_completeness auto
termination
  by (relation "measure id") auto













section \<open>Memory store (memory.py)\<close>

text \<open>
  The table \<open>emotions\<close> of the embedded database and the worksheet \<open>emotions\<close> hold
  the same columns; either store is the list of its rows in the order of insertion, and it
  is shared by the managers of all users.  Rows are written by \<open>add_emotion_record\<close>
  only, which always stores a number as confidence; the three text columns after it may be
  NULL in the table.
\<close>

record row =
  r_user_id :: pystr
  r_timestamp :: pystr
  r_emotion_label :: pystr
  r_confidence :: rat
  r_message_text :: "pystr option"
  r_response_text :: "pystr option"
  r_session_id :: "pystr option"

record memory_manager =
  user_id :: pystr
  use_sheets :: bool

text \<open>\<open>x or d\<close> for an optional number and for an optional string.\<close>

definition or_num :: "rat option \<Rightarrow> rat \<Rightarrow> rat" where
  "or_num x d = (case x of None \<Rightarrow> d | Some v \<Rightarrow> if v = 0 then d else v)"

definition or_str :: "pystr option \<Rightarrow> pystr \<Rightarrow> pystr" where
  "or_str x d = (case x of None \<Rightarrow> d | Some v \<Rightarrow> if v = [] then d else v)"

text \<open>
  \<open>backend_ok\<close> tells whether the write to the backend goes through; when it raises,
  the handler returns \<open>False\<close> and nothing is stored.
\<close>

definition add_to_sheets ::
  "memory_manager \<Rightarrow> bool \<Rightarrow> pystr \<Rightarrow> pystr \<Rightarrow> rat option \<Rightarrow> pystr option \<Rightarrow> pystr option
     \<Rightarrow> pystr option \<Rightarrow> row list \<Rightarrow> bool \<times> row list" where
  "add_to_sheets mgr backend_ok timestamp emotion confidence message resp session_id store =
     (if backend_ok
      then (True, store @ [\<lparr>r_user_id = user_id mgr, r_timestamp = timestamp,
                             r_emotion_label = emotion, r_confidence = or_num confidence (1 / 2),
                             r_message_text = Some (or_str message []),
                             r_response_text = Some (or_str resp []),
                             r_session_id = Some (or_str session_id [])\<rparr>])
      else (False, store))"

definition add_to_sqlite ::
  "memory_manager \<Rightarrow> bool \<Rightarrow> pystr \<Rightarrow> pystr \<Rightarrow> rat option \<Rightarrow> pystr option \<Rightarrow> pystr option
     \<Rightarrow> pystr option \<Rightarrow> row list \<Rightarrow> bool \<times> row list" where
  "add_to_sqlite mgr backend_ok timestamp emotion confidence message resp session_id store =
     (if backend_ok
      then (True, store @ [\<lparr>r_user_id = user_id mgr, r_timestamp = timestamp,
                             r_emotion_label = emotion, r_confidence = or_num confidence (1 / 2),
                             r_message_text = message, r_response_text = resp,
                             r_session_id = session_id\<rparr>])
      else (False, store))"

text \<open>
  \<open>add_emotion_record\<close>; \<open>timestamp\<close> is the text of \<open>utcnow().isoformat()\<close>.
\<close>

definition add_emotion_record ::
  "memory_manager \<Rightarrow> bool \<Rightarrow> pystr \<Rightarrow> pystr \<Rightarrow> rat option \<Rightarrow> pystr option \<Rightarrow> pystr option
     \<Rightarrow> pystr option \<Rightarrow> row list \<Rightarrow> bool \<times> row list" where
  "add_emotion_record mgr backend_ok timestamp emotion_label confidence message resp session_id
       store =
     (if use_sheets mgr
      then add_to_sheets mgr backend_ok timestamp emotion_label confidence message resp
             session_id store
      else add_to_sqlite mgr backend_ok timestamp emotion_label confidence message resp
             session_id store)"

record entry =
  e_timestamp :: pystr
  e_emotion :: pystr
  e_confidence :: rat
  e_message :: pystr
  e_session_id :: pystr

text \<open>
  The slice \<open>xs[:limit]\<close> of Python, where a negative limit counts from the end, and
  \<open>LIMIT ?\<close> of SQLite, where a negative limit means no limit.
\<close>

definition slice_to :: "int \<Rightarrow> 'a list \<Rightarrow> 'a list" where
  "slice_to limit xs =
     (if limit < 0 then take (length xs - nat (- limit)) xs else take (nat limit) xs)"

definition sql_limit :: "int \<Rightarrow> 'a list \<Rightarrow> 'a list" where
  "sql_limit limit xs = (if limit < 0 then xs else take (nat limit) xs)"

definition get_from_sheets :: "memory_manager \<Rightarrow> int \<Rightarrow> row list \<Rightarrow> entry list" where
  "get_from_sheets mgr limit store =
     (let user_records = filter (\<lambda>r. r_user_id r = user_id mgr) store;
          sorted_records = slice_to limit (sorted_desc r_timestamp user_records)
      in map (\<lambda>r. \<lparr>e_timestamp = r_timestamp r, e_emotion = r_emotion_label r,
                    e_confidence = r_confidence r, e_message = get_or (r_message_text r) [],
                    e_session_id = get_or (r_session_id r) []\<rparr>) sorted_records)"

text \<open>
  \<open>ORDER BY timestamp DESC\<close> is taken to keep rows of equal timestamp in the order of
  insertion.
\<close>

definition get_from_sqlite :: "memory_manager \<Rightarrow> int \<Rightarrow> row list \<Rightarrow> entry list" where
  "get_from_sqlite mgr limit store =
     (let rows = sql_limit limit
                   (sorted_desc r_timestamp (filter (\<lambda>r. r_user_id r = user_id mgr) store))
      in map (\<lambda>r. \<lparr>e_timestamp = r_timestamp r, e_emotion = r_emotion_label r,
                    e_confidence = r_confidence r, e_message = or_str (r_message_text r) [],
                    e_session_id = or_str (r_session_id r) []\<rparr>) rows)"

definition get_recent_emotions :: "memory_manager \<Rightarrow> int \<Rightarrow> row list \<Rightarrow> entry list" where
  "get_recent_emotions mgr limit store =
     (if use_sheets mgr then get_from_sheets mgr limit store
      else get_from_sqlite mgr limit store)"

record pattern =
  frequency :: nat
  percentage :: rat
  avg_confidence :: rat

record pattern_summary =
  total_entries :: nat
  overall_avg_confidence :: "rat option"
  patterns :: "(pystr \<times> pattern) list"
  time_period :: "pystr option"

text \<open>
  The dictionary \<open>emotion_counts\<close> keeps its keys in the order of first insertion: it is
  an association list of the label with its count and its total confidence.  \<open>count_one\<close>
  is one round of the loop over the records.
\<close>

fun count_one :: "(pystr \<times> nat \<times> rat) list \<Rightarrow> pystr \<Rightarrow> rat \<Rightarrow> (pystr \<times> nat \<times> rat) list" where
  "count_one [] emotion conf = [(emotion, 0 + 1, 0 + conf)]"
| "count_one ((k, n, t) # rest) emotion conf =
     (if k = emotion then (k, n + 1, t + conf) # rest
      else (k, n, t) # count_one rest emotion conf)"

definition emotion_counts :: "(pystr \<times> rat) list \<Rightarrow> (pystr \<times> nat \<times> rat) list" where
  "emotion_counts records = foldl (\<lambda>counts (emotion, conf). count_one counts emotion conf) [] records"

definition str_of_int :: "int \<Rightarrow> pystr" where
  "str_of_int i = (if i < 0 then py ''-'' @ str_of_nat (nat (- i)) else str_of_nat (nat i))"

text \<open>
  \<open>get_emotion_patterns\<close>.  \<open>cutoff_date\<close> is the ISO text of the time \<open>days\<close> days
  before now, which the datetime library computes; the records are compared with it as
  strings.
\<close>

definition get_emotion_patterns ::
  "memory_manager \<Rightarrow> pystr \<Rightarrow> int \<Rightarrow> row list \<Rightarrow> pattern_summary" where
  "get_emotion_patterns mgr cutoff_date days store =
     (let recent_records =
            (if use_sheets mgr
             then map (\<lambda>r. (e_emotion r, e_confidence r))
                    (filter (\<lambda>r. e_timestamp r \<ge> cutoff_date) (get_from_sheets mgr 1000 store))
             else map (\<lambda>r. (r_emotion_label r, r_confidence r))
                    (sorted_desc r_timestamp
                       (filter (\<lambda>r. r_user_id r = user_id mgr \<and> r_timestamp r \<ge> cutoff_date)
                          store)))
      in if recent_records = []
         then \<lparr>total_entries = 0, overall_avg_confidence = None, patterns = [],
               time_period = None\<rparr>
         else
           \<lparr>total_entries = length recent_records,
            overall_avg_confidence =
              Some (py_round (sum_list (map snd recent_records)
                              / of_nat (length recent_records)) 2),
            patterns =
              map (\<lambda>(emotion, count, total).
                     (emotion,
                      \<lparr>frequency = count,
                       percentage = py_round (of_nat count / of_nat (length recent_records) * 100) 1,
                       avg_confidence = py_round (total / of_nat count) 2\<rparr>))
                  (emotion_counts recent_records),
            time_period = Some (str_of_int days @ py '' days'')\<rparr>)"

section \<open>The fallback policy in the words of the specification\<close>

text \<open>
  Five keyword sets, tried in this order, each with its canned message; the first set of
  which a keyword occurs in the lower-cased prompt decides, and the generic message is
  returned when none does.
\<close>

definition keyword_sets :: "(pystr list \<times> pystr) list" where
  "keyword_sets =
     [([py ''sad'', py ''depressed'', py ''down'', py ''upset''], fallback_sadness),
      ([py ''angry'', py ''frustrated'', py ''mad'', py ''annoyed''], fallback_anger),
      ([py ''anxious'', py ''worried'', py ''nervous'', py ''stressed''], fallback_fear),
      ([py ''happy'', py ''excited'', py ''joyful'', py ''great'', py ''wonderful''], fallback_joy),
      ([py ''tired'', py ''exhausted'', py ''drained'', py ''overwhelmed''], fallback_fatigue)]"

definition fallback_by_priority :: "pystr \<Rightarrow> pystr" where
  "fallback_by_priority prompt =
     (case find (\<lambda>(words, message). any_in words (lower prompt)) keyword_sets of
        None \<Rightarrow> fallback_generic
      | Some (words, message) \<Rightarrow> message)"

section \<open>The retry schedule in the words of the specification\<close>

text \<open>
  An attempt has failed when it raised or returned an empty text.  A failed attempt
  leaves the call of the model and a log entry; after a raised error, unless the attempt
  was the last one, the client also sleeps \<open>2 ^ attempt\<close> seconds.
\<close>

definition failed :: "outcome \<Rightarrow> bool" where
  "failed out = (case out of Raised \<Rightarrow> True | Replied text \<Rightarrow> text = [])"

definition reply_text :: "outcome \<Rightarrow> pystr" where
  "reply_text out = (case out of Raised \<Rightarrow> [] | Replied text \<Rightarrow> text)"

definition failed_attempt_events :: "gemini_model \<Rightarrow> pystr \<Rightarrow> int \<Rightarrow> rat \<Rightarrow> nat \<Rightarrow> event list" where
  "failed_attempt_events m prompt max_retries temperature attempt =
     Generate_content prompt temperature attempt #
     (case m prompt temperature attempt of
        Raised \<Rightarrow> Log_error (attempt + 1) #
                  (if int attempt < max_retries - 1 then [Sleep (2 ^ attempt)] else [])
      | Replied text \<Rightarrow> [Log_warning (attempt + 1)])"

text \<open>Two remote models and a configured client, for the examples.\<close>

definition model_always_empty :: gemini_model where
  "model_always_empty prompt temperature attempt = Replied []"

definition model_always_raises :: gemini_model where
  "model_always_raises prompt temperature attempt = Raised"

definition configured_client :: "gemini_model \<Rightarrow> gemini_client" where
  "configured_client m = \<lparr>model = Some m, last_request_time = 0, min_request_interval = 1\<rparr>"

section \<open>Managers and a row for the examples\<close>

definition example_sqlite_manager :: memory_manager where
  "example_sqlite_manager = \<lparr>user_id = py ''alice'', use_sheets = False\<rparr>"

definition example_sheets_manager :: memory_manager where
  "example_sheets_manager = \<lparr>user_id = py ''alice'', use_sheets = True\<rparr>"

definition example_other_manager :: memory_manager where
  "example_other_manager = \<lparr>user_id = py ''bob'', use_sheets = False\<rparr>"

definition example_row :: row where
  "example_row =
     \<lparr>r_user_id = py ''alice'', r_timestamp = py ''2024-05-02T10:00:00'',
      r_emotion_label = py ''positive-joy'', r_confidence = 9 / 10,
      r_message_text = Some (py ''hello''), r_response_text = Some (py ''hi''),
      r_session_id = None\<rparr>"

section \<open>The window of the pattern analysis in the words of the specification\<close>




section \<open>The validation of a reply in the words of the specification\<close>



section \<open>Properties\<close>

subsection \<open>Sentiment fusion\<close>

text \<open>
  Claim C4.  For every pair of scorer results, the combined label is chosen in this order
  of priority: the base label if the base confidence exceeds 0.8; else the nuanced label
  if the nuanced confidence exceeds 0.8; else the common label if the two labels are
  equal; else the label of the scorer with the strictly higher confidence, the base
  scorer winning a tie.
\<close>

theorem combine_sentiments_priority:
  "combine_sentiments \<lparr>s_label = Some bl, s_confidence = Some bc\<rparr>
                      \<lparr>s_label = Some nl, s_confidence = Some nc\<rparr> =
     (if bc > 8 / 10 then bl
      else if nc > 8 / 10 then nl
      else if bl = nl then bl
      else if nc > bc then nl
      else bl)"
  by (simp add: combine_sentiments_def get_or_def Let_def)

theorem combine_sentiments_priority_witness:
  "combine_sentiments \<lparr>s_label = Some (py ''positive''), s_confidence = Some (6 / 10)\<rparr>
                      \<lparr>s_label = Some (py ''negative''), s_confidence = Some (6 / 10)\<rparr>
     = py ''positive''
   \<and> combine_sentiments \<lparr>s_label = Some (py ''positive''), s_confidence = Some (6 / 10)\<rparr>
                        \<lparr>s_label = Some (py ''negative''), s_confidence = Some (7 / 10)\<rparr>
     = py ''negative''"
  using combine_sentiments_priority [of "py ''positive''" "6 / 10" "py ''negative''" "6 / 10"]
        combine_sentiments_priority [of "py ''positive''" "6 / 10" "py ''negative''" "7 / 10"]
  by (simp add: py_def)

subsection \<open>Emotion classifier\<close>

text \<open>
  Claim C5.  For every text that is empty or whose trimmed length is below the minimum
  length (5 by default), \<open>detect_emotion\<close> returns exactly the default neutral result
  (label neutral, confidence 0.5, all\_scores holding only neutral with 0.5) and has not
  called the classification model.
\<close>

theorem detect_emotion_short_text:
  "(text = [] \<or> int (length (strip text)) < min_length \<longrightarrow>
      detect_emotion pipe text min_length =
        (\<lparr>er_label = py ''neutral'', er_confidence = 1 / 2,
          all_scores = [(py ''neutral'', 1 / 2)]\<rparr>, 0))
   \<and> (text = [] \<or> length (strip text) < 5 \<longrightarrow>
      detect_emotion_default pipe text =
        (\<lparr>er_label = py ''neutral'', er_confidence = 1 / 2,
          all_scores = [(py ''neutral'', 1 / 2)]\<rparr>, 0))"
  by (simp add: detect_emotion_def detect_emotion_default_def)

theorem detect_emotion_short_text_witness:
  "length (strip (py ''  ok  '')) < 5
   \<and> detect_emotion_default (\<lambda>t. Inr [[(py ''joy'', 9 / 10)]]) (py ''  ok  '') =
        (\<lparr>er_label = py ''neutral'', er_confidence = 1 / 2,
          all_scores = [(py ''neutral'', 1 / 2)]\<rparr>, 0)"
  using detect_emotion_short_text [of "py ''  ok  ''" 5 "\<lambda>t. Inr [[(py ''joy'', 9 / 10)]]"]
  by (simp add: strip_def py_def is_space_def)

subsection \<open>Generation client\<close>

lemma gemini_fallback_response_by_priority:
  "gemini_fallback_response prompt = fallback_by_priority prompt"
  by (simp add: gemini_fallback_response_def fallback_by_priority_def keyword_sets_def Let_def)

text \<open>
  Claim C2.  When no model is configured, \<open>generate_response\<close> returns, for every
  prompt, exactly the fallback string found by matching the lower-cased prompt against the
  five keyword sets (sadness, anger, fear, joy, fatigue) in that order, or the generic
  message when none matches.  The remote model is not called (there is no event at all),
  the client is unchanged, and the string is the same on every call: it does not depend
  on the time, the number of retries, the temperature or the rest of the client.
\<close>

theorem unconfigured_generate_is_fallback:
  "model c = None \<Longrightarrow>
     gemini_generate_response c now prompt max_retries temperature
       = (fallback_by_priority prompt, [], c)
     \<and> (model c' = None \<longrightarrow>
          fst (gemini_generate_response c' now' prompt max_retries' temperature')
            = fst (gemini_generate_response c now prompt max_retries temperature))"
  by (simp add: gemini_generate_response_def gemini_fallback_response_by_priority)

theorem unconfigured_generate_is_fallback_witness:
  "model \<lparr>model = None, last_request_time = 0, min_request_interval = 1\<rparr> = None
   \<and> gemini_generate_response \<lparr>model = None, last_request_time = 0, min_request_interval = 1\<rparr>
        5 (py ''I am so SAD today'') 3 (7 / 10)
      = (fallback_sadness, [], \<lparr>model = None, last_request_time = 0, min_request_interval = 1\<rparr>)"
proof -
  have "fallback_by_priority (py ''I am so SAD today'') = fallback_sadness"
    by (simp add: fallback_by_priority_def keyword_sets_def any_in_def py_def lower_def
          lower_cp_def)
  then show ?thesis
    using unconfigured_generate_is_fallback
      [of "\<lparr>model = None, last_request_time = 0, min_request_interval = 1\<rparr>"
          5 "py ''I am so SAD today''" 3 "7 / 10"]
    by simp
qed

lemma attempt_loop_closed_form:
  "attempt_loop m prompt max_retries temperature atts =
     (concat (map (failed_attempt_events m prompt max_retries temperature)
                  (takeWhile (\<lambda>a. failed (m prompt temperature a)) atts))
      @ (case dropWhile (\<lambda>a. failed (m prompt temperature a)) atts of
           [] \<Rightarrow> []
         | a # rest \<Rightarrow> [Generate_content prompt temperature a]),
      case dropWhile (\<lambda>a. failed (m prompt temperature a)) atts of
        [] \<Rightarrow> None
      | a # rest \<Rightarrow> Some (strip (reply_text (m prompt temperature a))))"
proof (induction atts)
  case Nil
  show ?case by simp
next
  case (Cons a atts)
  show ?case
  proof (cases "m prompt temperature a")
    case Raised
    with Cons show ?thesis
      by (simp add: failed_def failed_attempt_events_def)
  next
    case (Replied reply)
    with Cons show ?thesis
      by (cases "reply = []") (simp_all add: failed_def failed_attempt_events_def reply_text_def)
  qed
qed

text \<open>
  Claim C7, as the code has it.  With a configured model, every attempt that raises or
  returns an empty text is logged and followed by the next attempt, up to \<open>max_retries\<close>
  attempts.  After an attempt that raised, except the last one, the client sleeps
  \<open>2 ^ attempt\<close> seconds; after an attempt that returned an empty text it does not
  sleep.  The first attempt with a non-empty text ends the call with that text, trimmed;
  when every attempt has failed the deterministic fallback is returned, with no sleep
  after the last attempt.
\<close>

theorem generate_response_retry_schedule:
  "model c = Some m \<Longrightarrow>
   gemini_generate_response c now prompt max_retries temperature =
     ((case dropWhile (\<lambda>a. failed (m prompt temperature a)) [0..<nat max_retries] of
         [] \<Rightarrow> gemini_fallback_response prompt
       | a # rest \<Rightarrow> strip (reply_text (m prompt temperature a))),
      fst (enforce_rate_limit c now)
      @ concat (map (failed_attempt_events m prompt max_retries temperature)
                    (takeWhile (\<lambda>a. failed (m prompt temperature a)) [0..<nat max_retries]))
      @ (case dropWhile (\<lambda>a. failed (m prompt temperature a)) [0..<nat max_retries] of
           [] \<Rightarrow> []
         | a # rest \<Rightarrow> [Generate_content prompt temperature a]),
      snd (enforce_rate_limit c now))"
proof -
  assume c: "model c = Some m"
  show ?thesis
  proof (cases "dropWhile (\<lambda>a. failed (m prompt temperature a)) [0..<nat max_retries]")
    case Nil
    then show ?thesis
      using c
      by (simp only: gemini_generate_response_def attempt_loop_closed_form split_beta Let_def
            option.case list.case fst_conv snd_conv append_Nil2)
  next
    case (Cons a rest)
    then show ?thesis
      using c
      by (simp only: gemini_generate_response_def attempt_loop_closed_form split_beta Let_def
            option.case list.case fst_conv snd_conv)
  qed
qed


theorem empty_result_no_backoff_counterexample:
  "fst (snd (gemini_generate_response (configured_client model_always_empty) 10 (py ''Hello'') 3
               (7 / 10))) =
     [Generate_content (py ''Hello'') (7 / 10) 0, Log_warning 1,
      Generate_content (py ''Hello'') (7 / 10) 1, Log_warning 2,
      Generate_content (py ''Hello'') (7 / 10) 2, Log_warning 3]"
  by (simp add: gemini_generate_response_def configured_client_def model_always_empty_def
        enforce_rate_limit_def upt_rec)

theorem generate_response_retry_schedule_witness:
  "model (configured_client model_always_raises) = Some model_always_raises
   \<and> gemini_generate_response (configured_client model_always_raises) 10 (py ''Hello'') 3 (7 / 10) =
       (fallback_generic,
        [Generate_content (py ''Hello'') (7 / 10) 0, Log_error 1, Sleep 1,
         Generate_content (py ''Hello'') (7 / 10) 1, Log_error 2, Sleep 2,
         Generate_content (py ''Hello'') (7 / 10) 2, Log_error 3],
        (configured_client model_always_raises)\<lparr>last_request_time := 10\<rparr>)"
proof -
  have f: "gemini_fallback_response (py ''Hello'') = fallback_generic"
    by (simp add: gemini_fallback_response_def any_in_def py_def lower_def lower_cp_def)
  have m: "model (configured_client model_always_raises) = Some model_always_raises"
    by (simp add: configured_client_def)
  show ?thesis
    using generate_response_retry_schedule [OF m, of 10 "py ''Hello''" 3 "7 / 10"] f
    by (simp add: configured_client_def model_always_raises_def failed_def
          failed_attempt_events_def enforce_rate_limit_def upt_rec)
qed

lemma fallback_hello: "gemini_fallback_response (py ''Hello'') = fallback_generic"
  by (simp add: gemini_fallback_response_def any_in_def py_def lower_def lower_cp_def)

lemma fallback_generic_signature:
  "length fallback_generic > 0 \<and> \<not> contains (lower fallback_generic) (py ''fallback'')"
  by (simp add: fallback_generic_def py_def lower_def lower_cp_def)

text \<open>
  Claim C8 says that the health check reports the interface as unavailable whenever the
  probe was answered by the fallback path.  The check looks for the word \<open>fallback\<close> in
  the answer, which no canned text contains: when the single attempt of the probe raises
  or returns an empty text, the answer is the generic fallback message and the check
  reports \<open>available = True\<close>.
\<close>

theorem health_check_reports_fallback_as_available:
  "model c = Some m \<Longrightarrow> failed (m (py ''Hello'') (7 / 10) 0) \<Longrightarrow>
     fst (gemini_generate_response c now (py ''Hello'') 1 (7 / 10)) = fallback_generic
     \<and> available (fst (check_api_health c now)) = True"
proof -
  assume c: "model c = Some m" and f: "failed (m (py ''Hello'') (7 / 10) 0)"
  have one: "[0..<nat 1] = [0]" by simp
  have g: "fst (gemini_generate_response c now (py ''Hello'') 1 (7 / 10)) = fallback_generic"
    using f by (simp add: gemini_generate_response_def c split_beta attempt_loop_closed_form
                  one fallback_hello)
  show ?thesis
    using g fallback_generic_signature c
    by (simp add: check_api_health_def split_beta Let_def)
qed

theorem health_check_reports_fallback_as_available_witness:
  "model (configured_client model_always_raises) = Some model_always_raises
   \<and> failed (model_always_raises (py ''Hello'') (7 / 10) 0)
   \<and> fst (gemini_generate_response (configured_client model_always_raises) 10 (py ''Hello'') 1
            (7 / 10)) = fallback_generic
   \<and> available (fst (check_api_health (configured_client model_always_raises) 10)) = True"
  using health_check_reports_fallback_as_available
          [of "configured_client model_always_raises" model_always_raises 10]
  by (simp add: configured_client_def model_always_raises_def failed_def)

subsection \<open>Memory store\<close>

lemma add_emotion_record_cases:
  "add_emotion_record mgr ok ts e c m r s store =
     (if ok then
        (True, store @ [\<lparr>r_user_id = user_id mgr, r_timestamp = ts, r_emotion_label = e,
                          r_confidence = or_num c (1 / 2),
                          r_message_text = (if use_sheets mgr then Some (or_str m []) else m),
                          r_response_text = (if use_sheets mgr then Some (or_str r []) else r),
                          r_session_id = (if use_sheets mgr then Some (or_str s []) else s)\<rparr>])
      else (False, store))"
  by (simp add: add_emotion_record_def add_to_sheets_def add_to_sqlite_def)

lemma or_num_nonzero: "or_num c (1 / 2) \<noteq> 0"
  by (simp add: or_num_def split: option.split)

text \<open>
  Claim C10.  When the confidence given to \<open>add_emotion_record\<close> is \<open>None\<close> or
  \<open>0.0\<close>, the record is stored with confidence 0.5 instead, on either backend (the
  manager is arbitrary), provided that the write goes through; a failed write stores
  nothing.  Hence no row written by \<open>add_emotion_record\<close> has confidence 0: a store
  without such a row has none after any further call.
\<close>

theorem add_emotion_record_falsy_confidence:
  "confidence = None \<or> confidence = Some 0 \<Longrightarrow>
     (\<exists>r. add_emotion_record mgr True ts e confidence m resp s store = (True, store @ [r])
          \<and> r_confidence r = 1 / 2 \<and> r_user_id r = user_id mgr \<and> r_timestamp r = ts
          \<and> r_emotion_label r = e)
     \<and> add_emotion_record mgr False ts e confidence m resp s store = (False, store)
     \<and> ((\<forall>r \<in> set store. r_confidence r \<noteq> 0) \<longrightarrow>
          (\<forall>r \<in> set (snd (add_emotion_record mgr ok ts e any_confidence m resp s store)).
             r_confidence r \<noteq> 0))"
  by (auto simp add: add_emotion_record_cases or_num_def or_num_nonzero split: option.split)

theorem add_emotion_record_falsy_confidence_witness:
  "add_emotion_record example_sqlite_manager True (py ''2024-05-03T08:00:00'') (py ''neutral'')
       (Some 0) None None None [example_row] =
     (True, [example_row,
             \<lparr>r_user_id = py ''alice'', r_timestamp = py ''2024-05-03T08:00:00'',
              r_emotion_label = py ''neutral'', r_confidence = 1 / 2,
              r_message_text = None, r_response_text = None, r_session_id = None\<rparr>])
   \<and> add_emotion_record example_sheets_manager True (py ''2024-05-03T08:00:00'') (py ''neutral'')
       None None None None [example_row] =
     (True, [example_row,
             \<lparr>r_user_id = py ''alice'', r_timestamp = py ''2024-05-03T08:00:00'',
              r_emotion_label = py ''neutral'', r_confidence = 1 / 2,
              r_message_text = Some [], r_response_text = Some [], r_session_id = Some []\<rparr>])
   \<and> r_confidence example_row \<noteq> 0"
  using add_emotion_record_falsy_confidence
          [of "Some 0" example_sqlite_manager "py ''2024-05-03T08:00:00''" "py ''neutral''"
              None None None "[example_row]"]
        add_emotion_record_falsy_confidence
          [of None example_sheets_manager "py ''2024-05-03T08:00:00''" "py ''neutral''"
              None None None "[example_row]"]
  by (simp add: add_emotion_record_cases example_sqlite_manager_def example_sheets_manager_def
        or_num_def or_str_def example_row_def)

lemma set_sorted_desc: "set (sorted_desc f xs) = set xs"
  by (simp add: sorted_desc_def)

lemma set_slice_to: "set (slice_to limit xs) \<subseteq> set xs"
  by (auto simp add: slice_to_def dest: in_set_takeD)

lemma set_sql_limit: "set (sql_limit limit xs) \<subseteq> set xs"
  by (auto simp add: sql_limit_def dest: in_set_takeD)

lemma recent_emotions_own_rows:
  "get_recent_emotions mgr limit store =
     get_recent_emotions mgr limit (filter (\<lambda>r. r_user_id r = user_id mgr) store)"
  by (simp add: get_recent_emotions_def get_from_sheets_def get_from_sqlite_def)

lemma emotion_patterns_own_rows:
  "get_emotion_patterns mgr cutoff days store =
     get_emotion_patterns mgr cutoff days (filter (\<lambda>r. r_user_id r = user_id mgr) store)"
proof -
  have "filter (\<lambda>r. r_user_id r = user_id mgr \<and> cutoff \<le> r_timestamp r)
          (filter (\<lambda>r. r_user_id r = user_id mgr) store)
        = filter (\<lambda>r. r_user_id r = user_id mgr \<and> cutoff \<le> r_timestamp r) store"
    by (simp add: conj_commute cong: conj_cong)
  then show ?thesis
    by (simp add: get_emotion_patterns_def get_from_sheets_def del: filter_filter)
qed

lemma recent_emotions_from_rows:
  "e \<in> set (get_recent_emotions mgr limit store) \<Longrightarrow>
     \<exists>r \<in> set store. r_user_id r = user_id mgr \<and> e_timestamp e = r_timestamp r
        \<and> e_emotion e = r_emotion_label r \<and> e_confidence e = r_confidence r"
proof -
  assume e: "e \<in> set (get_recent_emotions mgr limit store)"
  let ?own = "filter (\<lambda>r. r_user_id r = user_id mgr) store"
  from e obtain r where r: "r \<in> set (sorted_desc r_timestamp ?own)"
    and er: "e_timestamp e = r_timestamp r \<and> e_emotion e = r_emotion_label r
             \<and> e_confidence e = r_confidence r"
    using set_slice_to [of limit "sorted_desc r_timestamp ?own"]
          set_sql_limit [of limit "sorted_desc r_timestamp ?own"]
    by (auto simp add: get_recent_emotions_def get_from_sheets_def get_from_sqlite_def
             split: if_splits)
  from r have "r \<in> set store \<and> r_user_id r = user_id mgr"
    by (simp add: set_sorted_desc)
  with er show ?thesis by blast
qed

lemma own_rows_after_add:
  "user_id other \<noteq> user_id mgr \<Longrightarrow>
     filter (\<lambda>r. r_user_id r = user_id mgr)
       (snd (add_emotion_record other ok ts e c m resp s store))
     = filter (\<lambda>r. r_user_id r = user_id mgr) store"
  by (simp add: add_emotion_record_cases)

text \<open>
  Claim C9.  For a manager of user \<open>U\<close>, on either backend, \<open>get_recent_emotions\<close> and
  \<open>get_emotion_patterns\<close> depend on the rows of \<open>U\<close> only: they give the same result
  on the store and on its rows with \<open>user_id = U\<close>, and every entry returned comes from
  such a row.  A record appended through the manager of another user leaves both results
  for \<open>U\<close> as they were.
\<close>

theorem memory_store_isolation:
  "get_recent_emotions mgr limit store =
     get_recent_emotions mgr limit (filter (\<lambda>r. r_user_id r = user_id mgr) store)
   \<and> get_emotion_patterns mgr cutoff days store =
     get_emotion_patterns mgr cutoff days (filter (\<lambda>r. r_user_id r = user_id mgr) store)
   \<and> (\<forall>e \<in> set (get_recent_emotions mgr limit store).
        \<exists>r \<in> set store. r_user_id r = user_id mgr \<and> e_timestamp e = r_timestamp r
           \<and> e_emotion e = r_emotion_label r \<and> e_confidence e = r_confidence r)
   \<and> (user_id other \<noteq> user_id mgr \<longrightarrow>
        get_recent_emotions mgr limit
          (snd (add_emotion_record other ok ts e c m resp s store))
          = get_recent_emotions mgr limit store
        \<and> get_emotion_patterns mgr cutoff days
          (snd (add_emotion_record other ok ts e c m resp s store))
          = get_emotion_patterns mgr cutoff days store)"
proof (intro conjI impI ballI)
  show "get_recent_emotions mgr limit store =
     get_recent_emotions mgr limit (filter (\<lambda>r. r_user_id r = user_id mgr) store)"
    by (rule recent_emotions_own_rows)
  show "get_emotion_patterns mgr cutoff days store =
     get_emotion_patterns mgr cutoff days (filter (\<lambda>r. r_user_id r = user_id mgr) store)"
    by (rule emotion_patterns_own_rows)
next
  fix x assume "x \<in> set (get_recent_emotions mgr limit store)"
  then show "\<exists>r \<in> set store. r_user_id r = user_id mgr \<and> e_timestamp x = r_timestamp r
           \<and> e_emotion x = r_emotion_label r \<and> e_confidence x = r_confidence r"
    by (rule recent_emotions_from_rows)
next
  assume o: "user_id other \<noteq> user_id mgr"
  show "get_recent_emotions mgr limit (snd (add_emotion_record other ok ts e c m resp s store))
          = get_recent_emotions mgr limit store"
    using recent_emotions_own_rows [of mgr limit "snd (add_emotion_record other ok ts e c m resp s store)"]
          recent_emotions_own_rows [of mgr limit store] own_rows_after_add [OF o]
    by simp
  show "get_emotion_patterns mgr cutoff days
          (snd (add_emotion_record other ok ts e c m resp s store))
          = get_emotion_patterns mgr cutoff days store"
    using emotion_patterns_own_rows [of mgr cutoff days "snd (add_emotion_record other ok ts e c m resp s store)"]
          emotion_patterns_own_rows [of mgr cutoff days store] own_rows_after_add [OF o]
    by simp
qed

theorem memory_store_isolation_witness:
  "user_id example_other_manager \<noteq> user_id example_sqlite_manager
   \<and> get_recent_emotions example_sqlite_manager 5
        (snd (add_emotion_record example_other_manager True (py ''2024-05-03T08:00:00'')
                (py ''negative-anger'') (Some (7 / 10)) None None None [example_row]))
      = get_recent_emotions example_sqlite_manager 5 [example_row]
   \<and> get_recent_emotions example_sqlite_manager 5 [example_row] =
        [\<lparr>e_timestamp = py ''2024-05-02T10:00:00'', e_emotion = py ''positive-joy'',
          e_confidence = 9 / 10, e_message = py ''hello'', e_session_id = []\<rparr>]
   \<and> total_entries (get_emotion_patterns example_sqlite_manager (py ''2024-05-01T00:00:00'') 7
        (snd (add_emotion_record example_other_manager True (py ''2024-05-03T08:00:00'')
                (py ''negative-anger'') (Some (7 / 10)) None None None [example_row]))) = 1"
proof -
  have ne: "user_id example_other_manager \<noteq> user_id example_sqlite_manager"
    by (simp add: example_other_manager_def example_sqlite_manager_def py_def)
  have r: "get_recent_emotions example_sqlite_manager 5 [example_row] =
        [\<lparr>e_timestamp = py ''2024-05-02T10:00:00'', e_emotion = py ''positive-joy'',
          e_confidence = 9 / 10, e_message = py ''hello'', e_session_id = []\<rparr>]"
    by (simp add: get_recent_emotions_def get_from_sqlite_def example_sqlite_manager_def
          example_row_def sql_limit_def sorted_desc_def or_str_def py_def)
  have p: "total_entries (get_emotion_patterns example_sqlite_manager
             (py ''2024-05-01T00:00:00'') 7 [example_row]) = 1"
    by (simp add: get_emotion_patterns_def example_sqlite_manager_def example_row_def
          sorted_desc_def py_def)
  note iso = memory_store_isolation
        [where mgr = example_sqlite_manager and limit = 5 and store = "[example_row]"
           and cutoff = "py ''2024-05-01T00:00:00''" and days = 7
           and other = example_other_manager and ok = True
           and ts = "py ''2024-05-03T08:00:00''" and e = "py ''negative-anger''"
           and c = "Some (7 / 10)" and m = None and resp = None and s = None]
  note after = iso [THEN conjunct2, THEN conjunct2, THEN conjunct2, THEN mp, OF ne]
  have p': "total_entries (get_emotion_patterns example_sqlite_manager
              (py ''2024-05-01T00:00:00'') 7
              (snd (add_emotion_record example_other_manager True (py ''2024-05-03T08:00:00'')
                (py ''negative-anger'') (Some (7 / 10)) None None None [example_row]))) = 1"
    by (simp only: after [THEN conjunct2] p)
  show ?thesis
    by (intro conjI ne r p' after [THEN conjunct1])
qed


















subsection \<open>Response synthesizer\<close>























































end
